theory Spec2Isabelle
  imports Main
begin

section \<open>Brand configuration (src/config/brands.ts)\<close>

text \<open>
  \<^verbatim>\<open>BrandConfig\<close> is the interface of the source. The field \<^verbatim>\<open>id\<close> is written
  \<open>id'\<close> here, since \<open>id\<close> is HOL's identity function. The interface declares
  \<^verbatim>\<open>defaultLocale: string\<close>; the request callback of src/i18n/request.ts guards the
  read with \<^verbatim>\<open>brand.defaultLocale || defaultLocale\<close>, which is written for a value
  that is missing at run time as well, so the field is an option here: \<open>None\<close> is
  JavaScript's \<^verbatim>\<open>undefined\<close>. Every record of the configured table has \<open>Some\<close>.
\<close>

record BrandConfig =
  id' :: string
  name :: string
  primaryColor :: string
  secondaryColor :: string
  accentColor :: string
  logo :: string
  defaultLocale :: "string option"
  supportedLocales :: "string list"

definition brand_a :: BrandConfig where
  "brand_a =
     \<lparr> id' = ''brand-a'', name = ''Brand A'', primaryColor = ''#3b82f6'',
       secondaryColor = ''#1e40af'', accentColor = ''#60a5fa'',
       logo = ''/logos/brand-a.svg'', defaultLocale = Some ''en'',
       supportedLocales = [''en'', ''es'', ''fr''] \<rparr>"

definition brand_b :: BrandConfig where
  "brand_b =
     \<lparr> id' = ''brand-b'', name = ''Brand B'', primaryColor = ''#10b981'',
       secondaryColor = ''#059669'', accentColor = ''#34d399'',
       logo = ''/logos/brand-b.svg'', defaultLocale = Some ''en'',
       supportedLocales = [''en'', ''de'', ''it''] \<rparr>"

definition brand_c :: BrandConfig where
  "brand_c =
     \<lparr> id' = ''brand-c'', name = ''Brand C'', primaryColor = ''#f59e0b'',
       secondaryColor = ''#d97706'', accentColor = ''#fbbf24'',
       logo = ''/logos/brand-c.svg'', defaultLocale = Some ''en'',
       supportedLocales = [''en'', ''ja'', ''zh''] \<rparr>"

text \<open>The object literal \<^verbatim>\<open>brands\<close>: its own properties, in the order of the source.\<close>

definition brands :: "(string \<times> BrandConfig) list" where
  "brands = [(''brand-a'', brand_a), (''brand-b'', brand_b), (''brand-c'', brand_c)]"

text \<open>
  \<^verbatim>\<open>brands[brandId]\<close> is a property read on an ordinary object: a name that is not an
  own property is looked up on \<^verbatim>\<open>Object.prototype\<close>, and only a name found in
  neither gives \<^verbatim>\<open>undefined\<close>. The members of \<^verbatim>\<open>Object.prototype\<close> are functions
  (and \<^verbatim>\<open>__proto__\<close> reads the prototype object itself), all of them truthy, none
  of them with a property \<^verbatim>\<open>defaultLocale\<close> or \<^verbatim>\<open>supportedLocales\<close>.
\<close>

datatype js_brand = Undefined | Inherited string | Configured BrandConfig

definition object_prototype_keys :: "string list" where
  "object_prototype_keys =
     [''constructor'', ''__defineGetter__'', ''__defineSetter__'', ''hasOwnProperty'',
      ''__lookupGetter__'', ''__lookupSetter__'', ''isPrototypeOf'',
      ''propertyIsEnumerable'', ''toString'', ''valueOf'', ''__proto__'',
      ''toLocaleString'']"

definition brands_get :: "string \<Rightarrow> js_brand" where
  "brands_get k =
     (case map_of brands k of
        Some b \<Rightarrow> Configured b
      | None \<Rightarrow> if k \<in> set object_prototype_keys then Inherited k else Undefined)"

fun truthy_brand :: "js_brand \<Rightarrow> bool" where
  "truthy_brand Undefined = False"
| "truthy_brand (Inherited k) = True"
| "truthy_brand (Configured b) = True"

text \<open>
  \<^verbatim>\<open>getCurrentBrand\<close> reads \<^verbatim>\<open>process.env.NEXT_PUBLIC_BRAND\<close>; the variable is the
  argument here, \<open>None\<close> when it is not set. The cast \<^verbatim>\<open>as BrandId\<close> checks nothing at
  run time. \<^verbatim>\<open>a || b\<close> is \<^verbatim>\<open>a\<close> when \<^verbatim>\<open>a\<close> is truthy and \<^verbatim>\<open>b\<close> otherwise; the empty
  string and \<^verbatim>\<open>undefined\<close> are falsy.
\<close>

definition getCurrentBrand :: "string option \<Rightarrow> js_brand" where
  "getCurrentBrand env =
     (let brandId = (case env of None \<Rightarrow> ''brand-a''
                     | Some s \<Rightarrow> if s = [] then ''brand-a'' else s)
      in if truthy_brand (brands_get brandId) then brands_get brandId
         else brands_get ''brand-a'')"

section \<open>Locale of a request (src/i18n/config.ts, src/i18n/request.ts)\<close>

datatype js_error = TypeError

definition defaultLocale_global :: string where
  "defaultLocale_global = ''en''"

text \<open>
  Property reads on the value that \<^verbatim>\<open>getCurrentBrand()\<close> returned: a read on
  \<^verbatim>\<open>undefined\<close> throws, a read of a property the value does not have gives
  \<^verbatim>\<open>undefined\<close>.
\<close>

fun read_supportedLocales :: "js_brand \<Rightarrow> js_error + string list option" where
  "read_supportedLocales Undefined = Inl TypeError"
| "read_supportedLocales (Inherited k) = Inr None"
| "read_supportedLocales (Configured b) = Inr (Some (supportedLocales b))"

fun read_defaultLocale :: "js_brand \<Rightarrow> js_error + string option" where
  "read_defaultLocale Undefined = Inl TypeError"
| "read_defaultLocale (Inherited k) = Inr None"
| "read_defaultLocale (Configured b) = Inr (defaultLocale b)"

definition getBrandLocales :: "string option \<Rightarrow> js_error + string list option" where
  "getBrandLocales env = read_supportedLocales (getCurrentBrand env)"

text \<open>
  The callback given to \<^verbatim>\<open>getRequestConfig\<close>, up to the value of \<^verbatim>\<open>locale\<close> in the
  object it returns. \<open>request_locale\<close> is its body with the value of
  \<^verbatim>\<open>getCurrentBrand()\<close> as an argument (the callback calls it twice, through
  \<^verbatim>\<open>getBrandLocales\<close> and directly, and it depends on the environment only);
  \<open>requestLocale\<close> is the awaited \<^verbatim>\<open>requestLocale\<close>, \<open>None\<close> for \<^verbatim>\<open>undefined\<close>.
  \<^verbatim>\<open>brandLocales.includes\<close> on \<^verbatim>\<open>undefined\<close> throws. The import of the message
  catalogue that follows belongs to the framework's loader and is not part of the model.
\<close>

definition fallback_locale :: "js_brand \<Rightarrow> js_error + string" where
  "fallback_locale brand =
     (case read_defaultLocale brand of
        Inl e \<Rightarrow> Inl e
      | Inr None \<Rightarrow> Inr defaultLocale_global
      | Inr (Some d) \<Rightarrow> if d = [] then Inr defaultLocale_global else Inr d)"

definition request_locale :: "js_brand \<Rightarrow> string option \<Rightarrow> js_error + string" where
  "request_locale brand requestLocale =
     (case read_supportedLocales brand of
        Inl e \<Rightarrow> Inl e
      | Inr brandLocales \<Rightarrow>
          (case requestLocale of
             None \<Rightarrow> fallback_locale brand
           | Some locale \<Rightarrow>
               if locale = [] then fallback_locale brand
               else (case brandLocales of
                       None \<Rightarrow> Inl TypeError
                     | Some ls \<Rightarrow>
                         if locale \<in> set ls then Inr locale
                         else fallback_locale brand)))"

definition getRequestConfig :: "string option \<Rightarrow> string option \<Rightarrow> js_error + string" where
  "getRequestConfig env requestLocale = request_locale (getCurrentBrand env) requestLocale"

section \<open>Server actions (the module imported as actions, in src/app/ssg/page.tsx)\<close>

text \<open>
  An action is modelled by what it returns together with the paths it hands to
  \<^verbatim>\<open>revalidatePath\<close>, in the order of the calls. \<^verbatim>\<open>revalidatePath\<close> belongs to the
  framework and is taken to return normally; \<^verbatim>\<open>console.log\<close> and the timer that
  simulates the database are not part of the model.
\<close>

record ActionState =
  success :: bool
  message :: "string option"
  error :: "string option"
  data :: "(string \<times> string) option"

text \<open>
  \<^verbatim>\<open>FormData.get\<close> returns the first value stored under a name, a string or a file, or
  \<^verbatim>\<open>null\<close>. The cast \<^verbatim>\<open>as string\<close> checks nothing at run time: a file is truthy and has
  neither \<^verbatim>\<open>trim\<close> nor \<^verbatim>\<open>includes\<close>, so calling them throws.
\<close>

datatype FormDataEntryValue = Text string | File

type_synonym FormData = "(string \<times> FormDataEntryValue) list"

text \<open>
  \<^verbatim>\<open>String.prototype.trim\<close> removes white space and line terminators at both ends. A
  \<open>char\<close> of the model is a code unit below 256, where these are the code units 9 to 13,
  32 and 160.
\<close>

definition js_whitespace :: "char \<Rightarrow> bool" where
  "js_whitespace c = (of_char c \<in> {9, 10, 11, 12, 13, 32, 160 :: nat})"

definition trim :: "string \<Rightarrow> string" where
  "trim s = rev (dropWhile js_whitespace (rev (dropWhile js_whitespace s)))"

definition name_required :: ActionState where
  "name_required =
     \<lparr> success = False, message = None, error = Some ''Name is required'', data = None \<rparr>"

definition email_required :: ActionState where
  "email_required =
     \<lparr> success = False, message = None, error = Some ''Valid email is required'',
       data = None \<rparr>"

definition createUser ::
  "ActionState option \<Rightarrow> FormData \<Rightarrow> (js_error + ActionState) \<times> string list" where
  "createUser prevState formData =
     (case map_of formData ''name'' of
        None \<Rightarrow> (Inr name_required, [])
      | Some File \<Rightarrow> (Inl TypeError, [])
      | Some (Text n) \<Rightarrow>
          if n = [] \<or> length (trim n) = 0 then (Inr name_required, [])
          else (case map_of formData ''email'' of
                  None \<Rightarrow> (Inr email_required, [])
                | Some File \<Rightarrow> (Inl TypeError, [])
                | Some (Text e) \<Rightarrow>
                    if e = [] \<or> CHR ''@'' \<notin> set e then (Inr email_required, [])
                    else (Inr \<lparr> success = True,
                                message = Some (''User '' @ n @ '' created successfully!''),
                                error = None, data = Some (n, e) \<rparr>,
                          [''/users'', ''/''])))"

text \<open>
  \<^verbatim>\<open>deleteUser\<close> returns an object literal with the fields \<^verbatim>\<open>success\<close> and
  \<^verbatim>\<open>error\<close>, or \<^verbatim>\<open>success\<close> and \<^verbatim>\<open>message\<close>; it is an \<open>ActionState\<close> without
  \<^verbatim>\<open>data\<close> here.
\<close>

definition deleteUser :: "string \<Rightarrow> ActionState \<times> string list" where
  "deleteUser userId =
     (if userId = []
      then (\<lparr> success = False, message = None, error = Some ''User ID is required'',
              data = None \<rparr>, [])
      else (\<lparr> success = True,
              message = Some (''User '' @ userId @ '' deleted successfully!''),
              error = None, data = None \<rparr>,
            [''/users'', ''/'', ''/users/'' @ userId]))"

section \<open>Route handlers (src/app/api/users/route.ts, and the route of /api/users/[id])\<close>

text \<open>
  The value of \<^verbatim>\<open>request.json()\<close>. A number is kept as an integer: the handler tests
  only whether it is zero, and copies it to the response.
\<close>

datatype json =
  JNull | JBool bool | JNum int | JStr string | JArr "json list"
  | JObj "(string \<times> json) list"

text \<open>\<open>None\<close> is \<^verbatim>\<open>undefined\<close>.\<close>

fun truthy_json :: "json option \<Rightarrow> bool" where
  "truthy_json None = False"
| "truthy_json (Some JNull) = False"
| "truthy_json (Some (JBool b)) = b"
| "truthy_json (Some (JNum n)) = (n \<noteq> 0)"
| "truthy_json (Some (JStr s)) = (s \<noteq> [])"
| "truthy_json (Some (JArr xs)) = True"
| "truthy_json (Some (JObj kvs)) = True"

text \<open>
  The reads of \<^verbatim>\<open>const { name, email } = body\<close>: destructuring \<^verbatim>\<open>null\<close> throws; an
  object gives the value of the last member with that key; no other value, and no
  prototype, has a property \<^verbatim>\<open>name\<close> or \<^verbatim>\<open>email\<close>.
\<close>

fun read_field :: "json \<Rightarrow> string \<Rightarrow> js_error + json option" where
  "read_field JNull k = Inl TypeError"
| "read_field (JObj kvs) k = Inr (map_of (rev kvs) k)"
| "read_field v k = Inr None"

record ApiResponse =
  status :: nat
  json_success :: bool
  json_message :: "string option"
  json_error :: "string option"
  json_data :: "(nat \<times> json option \<times> json option) option"

definition failure :: "nat \<Rightarrow> string \<Rightarrow> ApiResponse" where
  "failure code msg =
     \<lparr> status = code, json_success = False, json_message = None, json_error = Some msg,
       json_data = None \<rparr>"

text \<open>
  \<^verbatim>\<open>POST\<close>: \<open>now\<close> is the value of \<^verbatim>\<open>Date.now()\<close>, kept as a number in the response
  where the source writes its decimal string; \<open>request_json\<close> is \<open>None\<close> when
  \<^verbatim>\<open>request.json()\<close> throws. Whatever is thrown inside \<^verbatim>\<open>try\<close> is caught and answered
  with status 500.
\<close>

definition POST :: "nat \<Rightarrow> json option \<Rightarrow> ApiResponse \<times> string list" where
  "POST now request_json =
     (case request_json of
        None \<Rightarrow> (failure 500 ''Failed to create user'', [])
      | Some body \<Rightarrow>
          (case (read_field body ''name'', read_field body ''email'') of
             (Inr n, Inr e) \<Rightarrow>
               if \<not> truthy_json n \<or> \<not> truthy_json e
               then (failure 400 ''Name and email are required'', [])
               else (\<lparr> status = 201, json_success = True,
                       json_message = Some ''User created successfully'',
                       json_error = None, json_data = Some (now, n, e) \<rparr>,
                     [''/users'', ''/''])
           | _ \<Rightarrow> (failure 500 ''Failed to create user'', [])))"

text \<open>\<^verbatim>\<open>DELETE\<close> of /api/users/[id]: \<open>uid\<close> is the route parameter \<^verbatim>\<open>id\<close>.\<close>

definition DELETE :: "string \<Rightarrow> ApiResponse \<times> string list" where
  "DELETE uid =
     (\<lparr> status = 200, json_success = True,
        json_message = Some (''User '' @ uid @ '' deleted successfully''),
        json_error = None, json_data = None \<rparr>,
      [''/users'', ''/users/'' @ uid, ''/''])"

section \<open>The invalidation policy of the specification\<close>

text \<open>
  Modelled from the spec: the repository defines no function
  \<^verbatim>\<open>computeInvalidationPaths\<close>; the specification states it as the policy behind the
  \<^verbatim>\<open>revalidatePath\<close> calls of the handlers above. Following its words, the set always
  holds the listing path of the entity kind and the root path, and the detail path of
  the entity when an identifier is given.
\<close>

definition computeInvalidationPaths :: "string \<Rightarrow> string option \<Rightarrow> string set" where
  "computeInvalidationPaths entityKind entityId =
     {''/'' @ entityKind, ''/''} \<union>
     (case entityId of None \<Rightarrow> {} | Some i \<Rightarrow> {''/'' @ entityKind @ ''/'' @ i})"

section \<open>Facts about the brand table and the brand lookup\<close>

lemma map_of_brands:
  "map_of brands k =
     (if k = ''brand-a'' then Some brand_a else if k = ''brand-b'' then Some brand_b
      else if k = ''brand-c'' then Some brand_c else None)"
  by (simp add: brands_def)

lemma brands_cases:
  "(k, b) \<in> set brands \<Longrightarrow>
     (k = ''brand-a'' \<and> b = brand_a) \<or> (k = ''brand-b'' \<and> b = brand_b) \<or>
     (k = ''brand-c'' \<and> b = brand_c)"
  by (auto simp: brands_def)

lemma getCurrentBrand_key:
  "(k, b) \<in> set brands \<Longrightarrow> getCurrentBrand (Some k) = Configured b"
  by (drule brands_cases) (auto simp: getCurrentBrand_def brands_get_def map_of_brands)

text \<open>
  Where the fallback of \<^verbatim>\<open>getCurrentBrand\<close> does work: the variable is not set, is
  empty, or is a name that neither the table nor \<^verbatim>\<open>Object.prototype\<close> has.
\<close>

lemma getCurrentBrand_fallback:
  "env = None \<or> env = Some [] \<or>
     (\<exists>k. env = Some k \<and> k \<notin> fst ` set brands \<and> k \<notin> set object_prototype_keys)
   \<Longrightarrow> getCurrentBrand env = Configured brand_a"
proof -
  assume a: "env = None \<or> env = Some [] \<or>
     (\<exists>k. env = Some k \<and> k \<notin> fst ` set brands \<and> k \<notin> set object_prototype_keys)"
  have dflt: "brands_get ''brand-a'' = Configured brand_a"
    by (simp add: brands_get_def map_of_brands)
  from a consider "env = None \<or> env = Some []"
    | k where "env = Some k" "k \<noteq> []" "k \<notin> fst ` set brands"
        "k \<notin> set object_prototype_keys"
    by (cases env) auto
  then show ?thesis
  proof cases
    case 1
    then show ?thesis by (auto simp: getCurrentBrand_def dflt)
  next
    case 2
    from 2(3) have "map_of brands k = None" by (simp add: map_of_eq_None_iff)
    with 2 have "brands_get k = Undefined" by (simp add: brands_get_def)
    with 2 show ?thesis by (simp add: getCurrentBrand_def dflt)
  qed
qed

lemma getCurrentBrand_examples:
  "getCurrentBrand None = Configured brand_a"
  "getCurrentBrand (Some []) = Configured brand_a"
  "getCurrentBrand (Some ''nonexistent-brand'') = Configured brand_a"
  by (simp_all add: getCurrentBrand_def brands_get_def map_of_brands
      object_prototype_keys_def)

text \<open>Every record that \<^verbatim>\<open>getCurrentBrand\<close> can return is a record of the table.\<close>

lemma getCurrentBrand_in_table:
  "getCurrentBrand env = Configured b \<Longrightarrow> \<exists>k. (k, b) \<in> set brands"
proof -
  assume a: "getCurrentBrand env = Configured b"
  have "b = brand_a \<or> b = brand_b \<or> b = brand_c"
    using a
    by (auto simp: getCurrentBrand_def brands_get_def map_of_brands Let_def
        split: option.splits if_splits)
  then show ?thesis
    by (auto simp: brands_def)
qed

lemma table_codes:
  "(k, b) \<in> set brands \<Longrightarrow>
     [] \<notin> set (supportedLocales b) \<and> defaultLocale b = Some ''en''"
  by (drule brands_cases) (auto simp: brand_a_def brand_b_def brand_c_def)

text \<open>
  Unless the variable names a member of \<^verbatim>\<open>Object.prototype\<close>, the active brand is a
  record of the table.
\<close>

lemma getCurrentBrand_Configured:
  "(\<forall>k. env = Some k \<longrightarrow> k \<notin> set object_prototype_keys) \<Longrightarrow>
     \<exists>k b. (k, b) \<in> set brands \<and> getCurrentBrand env = Configured b"
proof -
  assume a: "\<forall>k. env = Some k \<longrightarrow> k \<notin> set object_prototype_keys"
  have dflt: "(''brand-a'', brand_a) \<in> set brands"
    by (simp add: brands_def)
  show ?thesis
  proof (cases "\<exists>k b. env = Some k \<and> (k, b) \<in> set brands")
    case True
    then obtain k b where "env = Some k" "(k, b) \<in> set brands"
      by blast
    with getCurrentBrand_key [of k b] show ?thesis
      by blast
  next
    case False
    with a have "env = None \<or> env = Some [] \<or>
      (\<exists>k. env = Some k \<and> k \<notin> fst ` set brands \<and> k \<notin> set object_prototype_keys)"
      by (cases env) force+
    from getCurrentBrand_fallback [OF this] dflt show ?thesis
      by blast
  qed
qed

text \<open>The locale of a request, for an active brand that is a brand record.\<close>

lemma request_locale_Configured:
  "request_locale (Configured b) l =
     Inr (case l of
            None \<Rightarrow>
              (case defaultLocale b of None \<Rightarrow> ''en''
               | Some d \<Rightarrow> if d = [] then ''en'' else d)
          | Some x \<Rightarrow>
              if x \<noteq> [] \<and> x \<in> set (supportedLocales b) then x
              else (case defaultLocale b of None \<Rightarrow> ''en''
                    | Some d \<Rightarrow> if d = [] then ''en'' else d))"
  by (simp add: request_locale_def fallback_locale_def defaultLocale_global_def
      split: option.splits)

lemma request_locale_nonempty_codes:
  "[] \<notin> set (supportedLocales b) \<Longrightarrow> defaultLocale b = Some d \<Longrightarrow> d \<noteq> [] \<Longrightarrow>
     request_locale (Configured b) l =
       Inr (case l of None \<Rightarrow> d
            | Some x \<Rightarrow> if x \<in> set (supportedLocales b) then x else d)"
  by (auto simp: request_locale_Configured split: option.splits)

text \<open>
  For every brand record the body of the callback returns a locale that is not empty,
  and the global default when the record has no default of its own; the callback does
  so whenever the brand variable does not name a member of \<^verbatim>\<open>Object.prototype\<close>.
\<close>

lemma request_locale_nonempty:
  "(\<exists>r. request_locale (Configured b) l = Inr r \<and> r \<noteq> []) \<and>
   ((defaultLocale b = None \<or> defaultLocale b = Some []) \<longrightarrow>
      (l = None \<or> l = Some [] \<or> (\<exists>x. l = Some x \<and> x \<notin> set (supportedLocales b))) \<longrightarrow>
      request_locale (Configured b) l = Inr ''en'') \<and>
   ((\<forall>k. env = Some k \<longrightarrow> k \<notin> set object_prototype_keys) \<longrightarrow>
      (\<exists>r. getRequestConfig env l = Inr r \<and> r \<noteq> []))"
proof -
  have rec: "\<exists>r. request_locale (Configured c) l = Inr r \<and> r \<noteq> []" for c
    by (auto simp: request_locale_Configured split: option.splits)
  have dflt: "(defaultLocale b = None \<or> defaultLocale b = Some []) \<longrightarrow>
      (l = None \<or> l = Some [] \<or> (\<exists>x. l = Some x \<and> x \<notin> set (supportedLocales b))) \<longrightarrow>
      request_locale (Configured b) l = Inr ''en''"
    by (auto simp: request_locale_Configured split: option.splits)
  have cfg: "(\<forall>k. env = Some k \<longrightarrow> k \<notin> set object_prototype_keys) \<longrightarrow>
      (\<exists>r. getRequestConfig env l = Inr r \<and> r \<noteq> [])"
  proof
    assume "\<forall>k. env = Some k \<longrightarrow> k \<notin> set object_prototype_keys"
    from getCurrentBrand_Configured [OF this]
    obtain c where "getCurrentBrand env = Configured c"
      by blast
    with rec [of c] show "\<exists>r. getRequestConfig env l = Inr r \<and> r \<noteq> []"
      by (simp add: getRequestConfig_def)
  qed
  from rec [of b] dflt cfg show ?thesis
    by blast
qed

section \<open>Facts about the actions and the route handlers\<close>

lemma createUser_paths:
  "snd (createUser prevState formData) =
     (case fst (createUser prevState formData) of
        Inr r \<Rightarrow> if success r then [''/users'', ''/''] else []
      | Inl e \<Rightarrow> [])"
  by (simp add: createUser_def name_required_def email_required_def
      split: option.splits FormDataEntryValue.splits)

lemma createUser_prevState:
  "createUser prevState formData = createUser prevState' formData"
  by (simp add: createUser_def)

lemma POST_paths:
  "snd (POST now request_json) =
     (if json_success (fst (POST now request_json)) then [''/users'', ''/''] else [])"
  by (simp add: POST_def failure_def split: option.splits sum.splits)

lemma POST_paths_input:
  "snd (POST now request_json) =
     (case request_json of
        None \<Rightarrow> []
      | Some body \<Rightarrow>
          (case (read_field body ''name'', read_field body ''email'') of
             (Inr n, Inr e) \<Rightarrow>
               if truthy_json n \<and> truthy_json e then [''/users'', ''/''] else []
           | _ \<Rightarrow> []))"
  by (simp add: POST_def split: option.splits sum.splits)

lemma trim_Nil: "trim [] = []"
  by (simp add: trim_def)

lemma trim_blank_example: "trim ''  '' = []"
  by (simp add: trim_def js_whitespace_def)

lemma trim_name_example: "trim ''Ann'' \<noteq> []"
  by (simp add: trim_def js_whitespace_def)

lemma createUser_name_missing:
  "map_of formData ''name'' = None \<Longrightarrow>
     createUser prevState formData = (Inr name_required, [])"
  by (simp add: createUser_def)

lemma createUser_name_blank:
  "map_of formData ''name'' = Some (Text n) \<Longrightarrow> trim n = [] \<Longrightarrow>
     createUser prevState formData = (Inr name_required, [])"
  by (simp add: createUser_def)

lemma createUser_email_missing:
  "map_of formData ''name'' = Some (Text n) \<Longrightarrow> trim n \<noteq> [] \<Longrightarrow>
   map_of formData ''email'' = None \<Longrightarrow>
     createUser prevState formData = (Inr email_required, [])"
  using trim_Nil by (auto simp: createUser_def)

lemma createUser_email_invalid:
  "map_of formData ''name'' = Some (Text n) \<Longrightarrow> trim n \<noteq> [] \<Longrightarrow>
   map_of formData ''email'' = Some (Text e) \<Longrightarrow> CHR ''@'' \<notin> set e \<Longrightarrow>
     createUser prevState formData = (Inr email_required, [])"
  using trim_Nil by (auto simp: createUser_def)

text \<open>A field that holds a file makes the action throw; nothing is revalidated.\<close>

lemma createUser_file:
  "map_of formData ''name'' = Some File \<Longrightarrow>
     createUser prevState formData = (Inl TypeError, [])"
  by (simp add: createUser_def)

lemma computeInvalidationPaths_None:
  "computeInvalidationPaths entityKind None = {''/'' @ entityKind, ''/''}"
  by (simp add: computeInvalidationPaths_def)

lemma computeInvalidationPaths_Some:
  "computeInvalidationPaths entityKind (Some i) =
     {''/'' @ entityKind, ''/'' @ entityKind @ ''/'' @ i, ''/''}"
  by (auto simp: computeInvalidationPaths_def)

lemma detail_path_mem:
  "(''/'' @ entityKind @ ''/'' @ j \<in> computeInvalidationPaths entityKind entityId) =
     (entityId = Some j)"
  by (cases entityId) (auto simp: computeInvalidationPaths_def)

section \<open>Brand resolution\<close>

text \<open>
  Claim C3, at the input where the code departs from it. The claim: for a raw brand
  identifier that is undefined, empty or not a key of the brand table, brand resolution
  returns the default record. \<^verbatim>\<open>constructor\<close> is not a key of the table, but the read
  \<^verbatim>\<open>brands[brandId]\<close> finds the member that every object inherits, which is truthy, so
  the fallback \<^verbatim>\<open>|| brands['brand-a']\<close> is not taken and \<^verbatim>\<open>getCurrentBrand\<close> returns a
  value that is no brand record. (\<open>getCurrentBrand_fallback\<close> and
  \<open>getCurrentBrand_examples\<close> show where the claim does hold.)
\<close>

theorem getCurrentBrand_inherited_key:
  "map_of brands ''constructor'' = None \<and>
   getCurrentBrand (Some ''constructor'') = Inherited ''constructor'' \<and>
   getCurrentBrand (Some ''constructor'') \<noteq> Configured brand_a"
  by (simp add: getCurrentBrand_def brands_get_def map_of_brands object_prototype_keys_def)

text \<open>
  Claim C7: for every key \<open>k\<close> of the configured brand table, brand resolution applied
  to \<open>k\<close> returns the record stored under \<open>k\<close>, unchanged, and the field \<^verbatim>\<open>id\<close> of that
  record is \<open>k\<close>.
\<close>

theorem getCurrentBrand_configured_key:
  "(k, b) \<in> set brands \<Longrightarrow> getCurrentBrand (Some k) = Configured b \<and> id' b = k"
proof
  assume h: "(k, b) \<in> set brands"
  show "getCurrentBrand (Some k) = Configured b"
    by (rule getCurrentBrand_key [OF h])
  from brands_cases [OF h] show "id' b = k"
    by (auto simp: brand_a_def brand_b_def brand_c_def)
qed

theorem getCurrentBrand_configured_key_witness:
  "(''brand-b'', brand_b) \<in> set brands \<and>
   getCurrentBrand (Some ''brand-b'') = Configured brand_b \<and> id' brand_b = ''brand-b''"
proof -
  have h: "(''brand-b'', brand_b) \<in> set brands"
    by (simp add: brands_def)
  from getCurrentBrand_configured_key [OF h] show ?thesis
    using h by simp
qed

text \<open>
  Claim C4: every record of the configured brand table has a non-empty list of
  supported locales, and its default locale is one of them.
\<close>

theorem brands_locale_invariant:
  "(k, b) \<in> set brands \<Longrightarrow>
     supportedLocales b \<noteq> [] \<and>
     (\<exists>d. defaultLocale b = Some d \<and> d \<in> set (supportedLocales b))"
  by (drule brands_cases) (auto simp: brand_a_def brand_b_def brand_c_def)

theorem brands_locale_invariant_witness:
  "(''brand-c'', brand_c) \<in> set brands \<and> supportedLocales brand_c \<noteq> [] \<and>
   defaultLocale brand_c = Some ''en'' \<and> ''en'' \<in> set (supportedLocales brand_c)"
proof -
  have h: "(''brand-c'', brand_c) \<in> set brands"
    by (simp add: brands_def)
  from brands_locale_invariant [OF h] show ?thesis
    using h by (auto simp: brand_c_def)
qed

section \<open>Locale resolution\<close>

text \<open>
  Claim C2: for every brand record \<open>b\<close> and every requested locale \<open>l\<close>, if \<open>l\<close> is
  defined and a member of the supported locales of \<open>b\<close>, locale resolution returns \<open>l\<close>
  unchanged; otherwise (\<open>l\<close> absent or not a member) it returns the default locale of
  \<open>b\<close>. This holds for the callback with every record that \<^verbatim>\<open>getCurrentBrand\<close> can
  make the active brand, and for the body of the callback with every record whose
  locale codes are not empty.
\<close>

theorem request_locale_resolution:
  "(getCurrentBrand env = Configured b \<longrightarrow>
      (\<forall>x. l = Some x \<and> x \<in> set (supportedLocales b) \<longrightarrow> getRequestConfig env l = Inr x) \<and>
      ((l = None \<or> (\<exists>x. l = Some x \<and> x \<notin> set (supportedLocales b))) \<longrightarrow>
         (\<exists>d. defaultLocale b = Some d \<and> getRequestConfig env l = Inr d))) \<and>
   ([] \<notin> set (supportedLocales c) \<and> defaultLocale c = Some d \<and> d \<noteq> [] \<longrightarrow>
      (\<forall>x. l = Some x \<and> x \<in> set (supportedLocales c) \<longrightarrow>
         request_locale (Configured c) l = Inr x) \<and>
      ((l = None \<or> (\<exists>x. l = Some x \<and> x \<notin> set (supportedLocales c))) \<longrightarrow>
         request_locale (Configured c) l = Inr d))"
proof (intro conjI impI)
  assume a: "getCurrentBrand env = Configured b"
  from getCurrentBrand_in_table [OF a] obtain k where "(k, b) \<in> set brands"
    by blast
  from table_codes [OF this]
  have t: "[] \<notin> set (supportedLocales b)" "defaultLocale b = Some ''en''"
    by simp_all
  have r: "getRequestConfig env m =
       Inr (case m of None \<Rightarrow> ''en''
            | Some x \<Rightarrow> if x \<in> set (supportedLocales b) then x else ''en'')" for m
    using request_locale_nonempty_codes [OF t, of m]
    by (simp add: getRequestConfig_def a)
  show "\<forall>x. l = Some x \<and> x \<in> set (supportedLocales b) \<longrightarrow> getRequestConfig env l = Inr x"
    by (simp add: r)
  assume "l = None \<or> (\<exists>x. l = Some x \<and> x \<notin> set (supportedLocales b))"
  then show "\<exists>d. defaultLocale b = Some d \<and> getRequestConfig env l = Inr d"
    using t(2) by (auto simp: r)
next
  assume c: "[] \<notin> set (supportedLocales c) \<and> defaultLocale c = Some d \<and> d \<noteq> []"
  then have r: "request_locale (Configured c) m =
       Inr (case m of None \<Rightarrow> d
            | Some x \<Rightarrow> if x \<in> set (supportedLocales c) then x else d)" for m
    by (simp add: request_locale_nonempty_codes)
  show "\<forall>x. l = Some x \<and> x \<in> set (supportedLocales c) \<longrightarrow>
         request_locale (Configured c) l = Inr x"
    by (simp add: r)
  assume "l = None \<or> (\<exists>x. l = Some x \<and> x \<notin> set (supportedLocales c))"
  then show "request_locale (Configured c) l = Inr d"
    by (auto simp: r)
qed

theorem request_locale_resolution_witness:
  "getRequestConfig (Some ''brand-b'') (Some ''de'') = Inr ''de'' \<and>
   getRequestConfig (Some ''brand-b'') (Some ''fr'') = Inr ''en'' \<and>
   getRequestConfig None None = Inr ''en'' \<and>
   request_locale (Configured (brand_c\<lparr>defaultLocale := Some ''ja''\<rparr>)) (Some ''xx'') = Inr ''ja''"
proof -
  have b: "getCurrentBrand (Some ''brand-b'') = Configured brand_b"
    by (simp add: getCurrentBrand_def brands_get_def map_of_brands)
  have a: "getCurrentBrand None = Configured brand_a"
    by (simp add: getCurrentBrand_def brands_get_def map_of_brands)
  from request_locale_resolution [of "Some ''brand-b''" brand_b "Some ''de''"] b
  have w1: "getRequestConfig (Some ''brand-b'') (Some ''de'') = Inr ''de''"
    by (simp add: brand_b_def)
  from request_locale_resolution [of "Some ''brand-b''" brand_b "Some ''fr''"] b
  have w2: "getRequestConfig (Some ''brand-b'') (Some ''fr'') = Inr ''en''"
    by (simp add: brand_b_def)
  from request_locale_resolution [of None brand_a None] a
  have w3: "getRequestConfig None None = Inr ''en''"
    by (simp add: brand_a_def)
  from request_locale_resolution
    [of _ _ "Some ''xx''" "brand_c\<lparr>defaultLocale := Some ''ja''\<rparr>" "''ja''"]
  have w4: "request_locale (Configured (brand_c\<lparr>defaultLocale := Some ''ja''\<rparr>)) (Some ''xx'')
      = Inr ''ja''"
    by (simp add: brand_c_def)
  from w1 w2 w3 w4 show ?thesis
    by blast
qed

text \<open>
  Claim C5: for every record \<open>b\<close> of the configured brand table and every requested
  locale, defined or absent, the resolved locale is one of the supported locales of
  \<open>b\<close>; this holds for the callback with \<open>b\<close> as the active brand as well.
\<close>

theorem request_locale_supported:
  "(k, b) \<in> set brands \<Longrightarrow>
     (\<exists>r. request_locale (Configured b) l = Inr r \<and> r \<in> set (supportedLocales b)) \<and>
     (\<exists>r. getRequestConfig (Some k) l = Inr r \<and> r \<in> set (supportedLocales b))"
proof -
  assume h: "(k, b) \<in> set brands"
  from brands_cases [OF h]
  have d: "defaultLocale b = Some ''en''" "''en'' \<in> set (supportedLocales b)"
    by (auto simp: brand_a_def brand_b_def brand_c_def)
  have "\<exists>r. request_locale (Configured b) l = Inr r \<and> r \<in> set (supportedLocales b)"
    using d by (auto simp: request_locale_Configured split: option.splits)
  then show ?thesis
    by (simp add: getRequestConfig_def getCurrentBrand_key [OF h])
qed

theorem request_locale_supported_witness:
  "(''brand-c'', brand_c) \<in> set brands \<and>
   getRequestConfig (Some ''brand-c'') (Some ''fr'') = Inr ''en'' \<and>
   ''en'' \<in> set (supportedLocales brand_c) \<and>
   getRequestConfig (Some ''brand-c'') (Some ''ja'') = Inr ''ja'' \<and>
   ''ja'' \<in> set (supportedLocales brand_c)"
proof -
  have h: "(''brand-c'', brand_c) \<in> set brands"
    by (simp add: brands_def)
  have k: "getCurrentBrand (Some ''brand-c'') = Configured brand_c"
    by (rule getCurrentBrand_key [OF h])
  from request_locale_supported [OF h, of "Some ''fr''"]
    request_locale_supported [OF h, of "Some ''ja''"]
  show ?thesis
    using h by (auto simp: getRequestConfig_def k request_locale_Configured brand_c_def)
qed

text \<open>
  Claim C6: with the brand identifier \<^verbatim>\<open>brand-b\<close> and the requested locale \<^verbatim>\<open>fr\<close>,
  locale resolution returns \<^verbatim>\<open>en\<close>, the default of brand-b, whose supported locales
  are en, de and it.
\<close>

theorem brand_b_fr_resolves_to_en:
  "getCurrentBrand (Some ''brand-b'') = Configured brand_b \<and>
   supportedLocales brand_b = [''en'', ''de'', ''it''] \<and>
   ''fr'' \<notin> set (supportedLocales brand_b) \<and>
   defaultLocale brand_b = Some ''en'' \<and>
   getRequestConfig (Some ''brand-b'') (Some ''fr'') = Inr ''en''"
  by (simp add: getRequestConfig_def request_locale_Configured getCurrentBrand_def
      brands_get_def map_of_brands brand_b_def)

text \<open>
  Claim C10, at the input where the code departs from it. The claim: even with a
  default locale that is absent or empty, locale resolution returns the global default
  \<^verbatim>\<open>en\<close>, and for every input it returns a locale that is not empty. With the brand
  variable set to \<^verbatim>\<open>constructor\<close> the active brand is the inherited member that
  \<^verbatim>\<open>getCurrentBrand\<close> returns, which has neither \<^verbatim>\<open>defaultLocale\<close> nor
  \<^verbatim>\<open>supportedLocales\<close>: a request without a locale still gets \<^verbatim>\<open>en\<close>, but a request
  that names one makes \<^verbatim>\<open>brandLocales.includes\<close> throw, so no locale is returned.
  (\<open>request_locale_nonempty\<close> shows where the claim does hold.)
\<close>

theorem getRequestConfig_inherited_key_throws:
  "getCurrentBrand (Some ''constructor'') = Inherited ''constructor'' \<and>
   read_defaultLocale (getCurrentBrand (Some ''constructor'')) = Inr None \<and>
   getRequestConfig (Some ''constructor'') None = Inr ''en'' \<and>
   getRequestConfig (Some ''constructor'') (Some ''fr'') = Inl TypeError"
  by (simp add: getRequestConfig_def request_locale_def fallback_locale_def
      defaultLocale_global_def getCurrentBrand_def brands_get_def map_of_brands
      object_prototype_keys_def)

section \<open>Cache invalidation after a mutation\<close>

text \<open>
  Claim C1: for every entity kind and entity identifier, the invalidation set holds the
  listing path of the kind and the root path, and holds the detail path of an entity
  exactly when that entity's identifier is the one given; for users and 42 it is
  /users, /users/42 and /, and for users without an identifier /users and /. The
  handlers of the repository revalidate exactly these sets: \<^verbatim>\<open>deleteUser\<close> (for an
  identifier that passes its validation) and \<^verbatim>\<open>DELETE\<close> the set for users and the
  identifier, \<^verbatim>\<open>createUser\<close> and \<^verbatim>\<open>POST\<close>, when they succeed, the set for users
  without an identifier.
\<close>

theorem invalidation_paths_policy:
  "''/'' @ entityKind \<in> computeInvalidationPaths entityKind entityId \<and>
   ''/'' \<in> computeInvalidationPaths entityKind entityId \<and>
   ((''/'' @ entityKind @ ''/'' @ j \<in> computeInvalidationPaths entityKind entityId) =
      (entityId = Some j)) \<and>
   computeInvalidationPaths ''users'' (Some ''42'') = {''/users'', ''/users/42'', ''/''} \<and>
   computeInvalidationPaths ''users'' None = {''/users'', ''/''} \<and>
   (userId \<noteq> [] \<longrightarrow>
      set (snd (deleteUser userId)) = computeInvalidationPaths ''users'' (Some userId)) \<and>
   set (snd (DELETE uid)) = computeInvalidationPaths ''users'' (Some uid) \<and>
   (\<forall>r. fst (createUser prevState formData) = Inr r \<and> success r \<longrightarrow>
      set (snd (createUser prevState formData)) = computeInvalidationPaths ''users'' None) \<and>
   (json_success (fst (POST now request_json)) \<longrightarrow>
      set (snd (POST now request_json)) = computeInvalidationPaths ''users'' None)"
proof -
  have a: "''/'' @ entityKind \<in> computeInvalidationPaths entityKind entityId"
    and b: "''/'' \<in> computeInvalidationPaths entityKind entityId"
    by (simp_all add: computeInvalidationPaths_def)
  have c: "computeInvalidationPaths ''users'' (Some ''42'') = {''/users'', ''/users/42'', ''/''}"
    by (simp add: computeInvalidationPaths_Some)
  have d: "computeInvalidationPaths ''users'' None = {''/users'', ''/''}"
    by (simp add: computeInvalidationPaths_None)
  have e: "userId \<noteq> [] \<longrightarrow>
      set (snd (deleteUser userId)) = computeInvalidationPaths ''users'' (Some userId)"
    by (auto simp: deleteUser_def computeInvalidationPaths_Some)
  have f: "set (snd (DELETE uid)) = computeInvalidationPaths ''users'' (Some uid)"
    by (auto simp: DELETE_def computeInvalidationPaths_Some)
  have g: "\<forall>r. fst (createUser prevState formData) = Inr r \<and> success r \<longrightarrow>
      set (snd (createUser prevState formData)) = computeInvalidationPaths ''users'' None"
    by (simp add: createUser_paths [of prevState formData] computeInvalidationPaths_None)
  have h: "json_success (fst (POST now request_json)) \<longrightarrow>
      set (snd (POST now request_json)) = computeInvalidationPaths ''users'' None"
    by (simp add: POST_paths [of now request_json] computeInvalidationPaths_None)
  from a b detail_path_mem c d e f g h show ?thesis
    by blast
qed

theorem invalidation_paths_policy_witness:
  "set (snd (deleteUser ''42'')) = {''/users'', ''/users/42'', ''/''} \<and>
   set (snd (createUser None [(''name'', Text ''Ann''), (''email'', Text ''ann@example.com'')]))
     = {''/users'', ''/''} \<and>
   set (snd (POST 0 (Some (JObj [(''name'', JStr ''Ann''), (''email'', JStr ''a@b'')]))))
     = {''/users'', ''/''}"
proof -
  have u: "''42'' \<noteq> []"
    by simp
  have c: "fst (createUser None [(''name'', Text ''Ann''), (''email'', Text ''ann@example.com'')])
      = Inr \<lparr> success = True, message = Some ''User Ann created successfully!'',
               error = None, data = Some (''Ann'', ''ann@example.com'') \<rparr>"
    by (simp add: createUser_def trim_name_example)
  have p: "json_success
      (fst (POST 0 (Some (JObj [(''name'', JStr ''Ann''), (''email'', JStr ''a@b'')]))))"
    by (simp add: POST_def)
  from invalidation_paths_policy [of "''users''" "Some ''42''" "''42''" "''42''" "''42''" None
      "[(''name'', Text ''Ann''), (''email'', Text ''ann@example.com'')]" 0
      "Some (JObj [(''name'', JStr ''Ann''), (''email'', JStr ''a@b'')])"] u c p
  show ?thesis
    by simp
qed

text \<open>
  Claim C8: the set of paths that a mutation revalidates is determined by the entity
  kind and the entity identifier alone. Any two runs for the same user identifier,
  through \<^verbatim>\<open>deleteUser\<close> or through \<^verbatim>\<open>DELETE\<close>, revalidate the same set, the one the
  specification gives for users and that identifier; any two runs that create a user,
  through \<^verbatim>\<open>createUser\<close> or through \<^verbatim>\<open>POST\<close>, whatever the form or body, the previous
  state and the time (the value of \<^verbatim>\<open>Date.now()\<close>), revalidate the same set, the one
  for users without an identifier. On one and the same input the paths do not change
  with the time or the previous state either, also when the input is refused.
\<close>

theorem revalidated_paths_deterministic:
  "(userId \<noteq> [] \<longrightarrow>
      set (snd (deleteUser userId)) = computeInvalidationPaths ''users'' (Some userId) \<and>
      set (snd (DELETE userId)) = computeInvalidationPaths ''users'' (Some userId) \<and>
      set (snd (deleteUser userId)) = set (snd (DELETE userId))) \<and>
   (\<forall>r r'. fst (createUser prevState formData) = Inr r \<and> success r \<and>
       fst (createUser prevState' formData') = Inr r' \<and> success r' \<longrightarrow>
      set (snd (createUser prevState formData)) = set (snd (createUser prevState' formData'))) \<and>
   (json_success (fst (POST now request_json)) \<and> json_success (fst (POST now' request_json'))
      \<longrightarrow> set (snd (POST now request_json)) = set (snd (POST now' request_json'))) \<and>
   (\<forall>r. fst (createUser prevState formData) = Inr r \<and> success r \<and>
       json_success (fst (POST now request_json)) \<longrightarrow>
      set (snd (createUser prevState formData)) = set (snd (POST now request_json)) \<and>
      set (snd (POST now request_json)) = computeInvalidationPaths ''users'' None) \<and>
   snd (POST now request_json) = snd (POST now' request_json) \<and>
   snd (createUser prevState formData) = snd (createUser prevState' formData)"
proof -
  have a: "userId \<noteq> [] \<longrightarrow>
      set (snd (deleteUser userId)) = computeInvalidationPaths ''users'' (Some userId) \<and>
      set (snd (DELETE userId)) = computeInvalidationPaths ''users'' (Some userId) \<and>
      set (snd (deleteUser userId)) = set (snd (DELETE userId))"
    by (auto simp: deleteUser_def DELETE_def computeInvalidationPaths_Some)
  have b: "\<forall>r r'. fst (createUser prevState formData) = Inr r \<and> success r \<and>
       fst (createUser prevState' formData') = Inr r' \<and> success r' \<longrightarrow>
      set (snd (createUser prevState formData)) = set (snd (createUser prevState' formData'))"
    by (simp add: createUser_paths [of prevState formData]
        createUser_paths [of prevState' formData'])
  have c: "json_success (fst (POST now request_json)) \<and>
      json_success (fst (POST now' request_json'))
      \<longrightarrow> set (snd (POST now request_json)) = set (snd (POST now' request_json'))"
    by (simp add: POST_paths [of now request_json] POST_paths [of now' request_json'])
  have d: "\<forall>r. fst (createUser prevState formData) = Inr r \<and> success r \<and>
       json_success (fst (POST now request_json)) \<longrightarrow>
      set (snd (createUser prevState formData)) = set (snd (POST now request_json)) \<and>
      set (snd (POST now request_json)) = computeInvalidationPaths ''users'' None"
    by (simp add: createUser_paths [of prevState formData] POST_paths [of now request_json]
        computeInvalidationPaths_None)
  have e: "snd (POST now request_json) = snd (POST now' request_json)"
    by (simp add: POST_paths_input)
  have f: "snd (createUser prevState formData) = snd (createUser prevState' formData)"
    by (simp add: createUser_prevState [of prevState formData prevState'])
  from a b c d e f show ?thesis
    by blast
qed

theorem revalidated_paths_deterministic_witness:
  "set (snd (deleteUser ''42'')) = set (snd (DELETE ''42'')) \<and>
   set (snd (DELETE ''42'')) = {''/users'', ''/users/42'', ''/''} \<and>
   set (snd (createUser None [(''name'', Text ''Ann''), (''email'', Text ''ann@example.com'')]))
     = set (snd (POST 7 (Some (JObj [(''name'', JStr ''Bob''), (''email'', JNum 1)])))) \<and>
   fst (POST 1 (Some (JObj [(''name'', JStr ''Bob''), (''email'', JNum 1)]))) \<noteq>
   fst (POST 2 (Some (JObj [(''name'', JStr ''Bob''), (''email'', JNum 1)])))"
proof -
  have u: "''42'' \<noteq> []"
    by simp
  have c: "fst (createUser None [(''name'', Text ''Ann''), (''email'', Text ''ann@example.com'')])
      = Inr \<lparr> success = True, message = Some ''User Ann created successfully!'',
               error = None, data = Some (''Ann'', ''ann@example.com'') \<rparr>"
    by (simp add: createUser_def trim_name_example)
  have p: "json_success
      (fst (POST 7 (Some (JObj [(''name'', JStr ''Bob''), (''email'', JNum 1)]))))"
    by (simp add: POST_def)
  have t: "fst (POST 1 (Some (JObj [(''name'', JStr ''Bob''), (''email'', JNum 1)]))) \<noteq>
   fst (POST 2 (Some (JObj [(''name'', JStr ''Bob''), (''email'', JNum 1)])))"
    by (simp add: POST_def)
  from revalidated_paths_deterministic
    [of "''42''" None "[(''name'', Text ''Ann''), (''email'', Text ''ann@example.com'')]"
      None "[(''name'', Text ''Ann''), (''email'', Text ''ann@example.com'')]"
      7 "Some (JObj [(''name'', JStr ''Bob''), (''email'', JNum 1)])"
      7 "Some (JObj [(''name'', JStr ''Bob''), (''email'', JNum 1)])"] u c p
  have w: "set (snd (deleteUser ''42'')) = set (snd (DELETE ''42'')) \<and>
   set (snd (DELETE ''42'')) = computeInvalidationPaths ''users'' (Some ''42'') \<and>
   set (snd (createUser None [(''name'', Text ''Ann''), (''email'', Text ''ann@example.com'')]))
     = set (snd (POST 7 (Some (JObj [(''name'', JStr ''Bob''), (''email'', JNum 1)]))))"
    by simp
  have s: "computeInvalidationPaths ''users'' (Some ''42'') = {''/users'', ''/users/42'', ''/''}"
    by (simp add: computeInvalidationPaths_Some)
  from w s t show ?thesis
    by simp
qed

text \<open>
  Claim C9: when the validation of an action fails (\<^verbatim>\<open>createUser\<close> with a name that is
  missing or blank, or with an email that is missing or has no \<^verbatim>\<open>@\<close>; \<^verbatim>\<open>deleteUser\<close>
  with an empty identifier), the action returns a result with \<^verbatim>\<open>success\<close> false and an
  error message, and revalidates no path. More generally, an action that does not
  return a successful result has revalidated nothing.
\<close>

theorem validation_failure_no_revalidation:
  "((map_of formData ''name'' = None \<or>
      (\<exists>n. map_of formData ''name'' = Some (Text n) \<and> trim n = [])) \<longrightarrow>
     createUser prevState formData =
       (Inr \<lparr> success = False, message = None, error = Some ''Name is required'',
              data = None \<rparr>, [])) \<and>
   ((\<exists>n. map_of formData ''name'' = Some (Text n) \<and> trim n \<noteq> []) \<and>
    (map_of formData ''email'' = None \<or>
      (\<exists>e. map_of formData ''email'' = Some (Text e) \<and> CHR ''@'' \<notin> set e)) \<longrightarrow>
     createUser prevState formData =
       (Inr \<lparr> success = False, message = None, error = Some ''Valid email is required'',
              data = None \<rparr>, [])) \<and>
   deleteUser [] =
     (\<lparr> success = False, message = None, error = Some ''User ID is required'',
        data = None \<rparr>, []) \<and>
   ((\<forall>r. fst (createUser prevState formData) = Inr r \<longrightarrow> \<not> success r) \<longrightarrow>
      snd (createUser prevState formData) = []) \<and>
   (\<not> success (fst (deleteUser userId)) \<longrightarrow> snd (deleteUser userId) = [])"
proof (intro conjI impI)
  assume "map_of formData ''name'' = None \<or>
      (\<exists>n. map_of formData ''name'' = Some (Text n) \<and> trim n = [])"
  then show "createUser prevState formData =
       (Inr \<lparr> success = False, message = None, error = Some ''Name is required'',
              data = None \<rparr>, [])"
    using createUser_name_missing [of formData prevState]
      createUser_name_blank [of formData _ prevState]
    by (auto simp: name_required_def)
next
  assume "(\<exists>n. map_of formData ''name'' = Some (Text n) \<and> trim n \<noteq> []) \<and>
    (map_of formData ''email'' = None \<or>
      (\<exists>e. map_of formData ''email'' = Some (Text e) \<and> CHR ''@'' \<notin> set e))"
  then show "createUser prevState formData =
       (Inr \<lparr> success = False, message = None, error = Some ''Valid email is required'',
              data = None \<rparr>, [])"
    using createUser_email_missing [of formData _ prevState]
      createUser_email_invalid [of formData _ _ prevState]
    by (auto simp: email_required_def)
next
  show "deleteUser [] =
     (\<lparr> success = False, message = None, error = Some ''User ID is required'',
        data = None \<rparr>, [])"
    by (simp add: deleteUser_def)
next
  assume "\<forall>r. fst (createUser prevState formData) = Inr r \<longrightarrow> \<not> success r"
  then show "snd (createUser prevState formData) = []"
    by (simp add: createUser_paths [of prevState formData] split: sum.splits)
next
  assume "\<not> success (fst (deleteUser userId))"
  then show "snd (deleteUser userId) = []"
    by (simp add: deleteUser_def split: if_splits)
qed

theorem validation_failure_no_revalidation_witness:
  "createUser None [(''name'', Text ''  ''), (''email'', Text ''a@b'')] =
     (Inr \<lparr> success = False, message = None, error = Some ''Name is required'',
            data = None \<rparr>, []) \<and>
   createUser None [(''name'', Text ''Ann''), (''email'', Text ''ann.example.com'')] =
     (Inr \<lparr> success = False, message = None, error = Some ''Valid email is required'',
            data = None \<rparr>, []) \<and>
   snd (deleteUser []) = []"
proof -
  have n1: "map_of [(''name'', Text ''  ''), (''email'', Text ''a@b'')] ''name''
      = Some (Text ''  '')"
    by simp
  have n2: "map_of [(''name'', Text ''Ann''), (''email'', Text ''ann.example.com'')] ''name''
      = Some (Text ''Ann'')"
    by simp
  have e2: "map_of [(''name'', Text ''Ann''), (''email'', Text ''ann.example.com'')] ''email''
      = Some (Text ''ann.example.com'')"
    by simp
  have a2: "CHR ''@'' \<notin> set ''ann.example.com''"
    by simp
  have d: "\<not> success (fst (deleteUser []))"
    by (simp add: deleteUser_def)
  from validation_failure_no_revalidation
      [of "[(''name'', Text ''  ''), (''email'', Text ''a@b'')]" None "[]"]
    n1 trim_blank_example
  have w1: "createUser None [(''name'', Text ''  ''), (''email'', Text ''a@b'')] =
     (Inr \<lparr> success = False, message = None, error = Some ''Name is required'',
            data = None \<rparr>, [])"
    by blast
  from validation_failure_no_revalidation
      [of "[(''name'', Text ''Ann''), (''email'', Text ''ann.example.com'')]" None "[]"]
    n2 e2 a2 trim_name_example d
  have w2: "createUser None [(''name'', Text ''Ann''), (''email'', Text ''ann.example.com'')] =
     (Inr \<lparr> success = False, message = None, error = Some ''Valid email is required'',
            data = None \<rparr>, []) \<and> snd (deleteUser []) = []"
    by blast
  from w1 w2 show ?thesis
    by blast
qed

end
